theory Spec2Isabelle
  imports Complex_Main
begin

section \<open>PID temperature-control simulation\<close>

text \<open>
  A shallow embedding of \<^verbatim>\<open>pid_controller.py\<close>, \<^verbatim>\<open>temperature_system.py\<close> and the
  metrics part of \<^verbatim>\<open>ui_plot.py\<close>. Python numbers are modelled as \<^typ>\<open>real\<close>: the
  rounding of the controller's and the plant's arithmetic and the non-finite values of binary
  floating point are outside the model. The one place where rounding decides an integer, the
  step count \<^verbatim>\<open>int(sim_time / dt)\<close>, is computed with the quotient rounded as a double.
  Mutation of an object is explicit state passing; an exception is the left injection of a
  sum.
\<close>

datatype py_error = ZeroDivisionError | IndexError | ValueError

subsection \<open>pid\_controller.py\<close>

record PIDController =
  Kp :: real
  Ki :: real
  Kd :: real
  setpoint :: real
  integral :: real
  prev_error :: real

definition PIDController_init :: "real \<Rightarrow> real \<Rightarrow> real \<Rightarrow> real \<Rightarrow> PIDController" where
  "PIDController_init kp ki kd sp =
     \<lparr>Kp = kp, Ki = ki, Kd = kd, setpoint = sp, integral = 0, prev_error = 0\<rparr>"

text \<open>
  \<^verbatim>\<open>update\<close> returns the mutated controller together with the tuple
  \<^verbatim>\<open>(output, P, I, D)\<close>. The statements are kept in the order of the source: the
  integral is advanced before the branch on \<^verbatim>\<open>dt\<close>, the previous error is overwritten
  after it.
\<close>

definition PIDController_update ::
  "PIDController \<Rightarrow> real \<Rightarrow> real \<Rightarrow> PIDController \<times> (real \<times> real \<times> real \<times> real)" where
  "PIDController_update self current_value dt =
     (let err = setpoint self - current_value;
          P = Kp self * err;
          self1 = self\<lparr>integral := integral self + err * dt\<rparr>;
          I = Ki self1 * integral self1;
          derivative = (if dt > 0 then (err - prev_error self1) / dt else 0);
          D = Kd self1 * derivative;
          self2 = self1\<lparr>prev_error := err\<rparr>;
          output = P + I + D
      in (self2, (output, P, I, D)))"

definition PIDController_reset :: "PIDController \<Rightarrow> PIDController" where
  "PIDController_reset self = self\<lparr>integral := 0, prev_error := 0\<rparr>"

subsection \<open>temperature\_system.py\<close>

record TemperatureSystem =
  temp :: real
  ambient :: real
  heat_capacity :: real
  cooling_rate :: real

definition TemperatureSystem_init :: "real \<Rightarrow> real \<Rightarrow> TemperatureSystem" where
  "TemperatureSystem_init initial_temp ambient_temp =
     \<lparr>temp = initial_temp, ambient = ambient_temp, heat_capacity = 5, cooling_rate = 3 / 100\<rparr>"

text \<open>
  \<^verbatim>\<open>heater_power / self.heat_capacity\<close> raises \<^verbatim>\<open>ZeroDivisionError\<close> when the heat
  capacity is zero; otherwise the temperature is advanced by one forward-Euler step and
  returned.
\<close>

definition TemperatureSystem_update ::
  "TemperatureSystem \<Rightarrow> real \<Rightarrow> real \<Rightarrow> py_error + (TemperatureSystem \<times> real)" where
  "TemperatureSystem_update self heater_power dt =
     (if heat_capacity self = 0 then Inl ZeroDivisionError
      else
        (let heating = heater_power / heat_capacity self;
             cooling = cooling_rate self * (temp self - ambient self);
             self1 = self\<lparr>temp := temp self + (heating - cooling) * dt\<rparr>
         in Inr (self1, temp self1)))"

text \<open>\<^verbatim>\<open>np.clip(x, lo, hi)\<close> is \<^verbatim>\<open>minimum(hi, maximum(x, lo))\<close>.\<close>

definition np_clip :: "real \<Rightarrow> real \<Rightarrow> real \<Rightarrow> real" where
  "np_clip x lo hi = min hi (max x lo)"

text \<open>\<^verbatim>\<open>int(x)\<close> truncates towards zero.\<close>

definition py_int :: "real \<Rightarrow> int" where
  "py_int x = (if x \<ge> 0 then \<lfloor>x\<rfloor> else \<lceil>x\<rceil>)"

text \<open>
  Double precision: \<open>fl x\<close> is the binary64 number nearest to \<open>x\<close>, a multiple of
  \<open>2 ^ (e - 52)\<close> for the exponent \<open>e\<close> with \<open>2 ^ e \<le> \<bar>x\<bar> < 2 ^ (e + 1)\<close>, ties going to the
  even significand. The exponent is not bounded: below the normal range the result still has
  magnitude less than one, so its integer part is the program's, and a quotient beyond the
  largest double (a non-finite value) is outside the model. \<open>float_div x y\<close> is the quotient
  \<^verbatim>\<open>x / y\<close> of the doubles that \<open>x\<close> and \<open>y\<close> denote.
\<close>

definition round_half_even :: "real \<Rightarrow> int" where
  "round_half_even y =
     (let f = \<lfloor>y\<rfloor>; r = y - of_int f
      in if r < 1 / 2 then f else if 1 / 2 < r then f + 1 else if even f then f else f + 1)"

definition pow2 :: "int \<Rightarrow> real" where
  "pow2 e = (if 0 \<le> e then 2 ^ nat e else 1 / 2 ^ nat (- e))"

definition fl :: "real \<Rightarrow> real" where
  "fl x = (if x = 0 then 0
           else (let e = \<lfloor>log 2 \<bar>x\<bar>\<rfloor> - 52
                 in of_int (round_half_even (x / pow2 e)) * pow2 e))"

definition float_div :: "real \<Rightarrow> real \<Rightarrow> real" where
  "float_div x y = fl (fl x / fl y)"

text \<open>\<^verbatim>\<open>range(n)\<close> is empty for \<^verbatim>\<open>n <= 0\<close>.\<close>

definition py_range :: "int \<Rightarrow> nat list" where
  "py_range n = [0..<nat n]"

text \<open>The seven lists the loop appends to, and the dictionary that is returned.\<close>

record series =
  times :: "real list"
  temperatures :: "real list"
  setpoints :: "real list"
  heater_powers :: "real list"
  p_terms :: "real list"
  i_terms :: "real list"
  d_terms :: "real list"

record SimulationRecord = series +
  data_Kp :: real
  data_Ki :: real
  data_Kd :: real

definition empty_series :: series where
  "empty_series = \<lparr>times = [], temperatures = [], setpoints = [], heater_powers = [],
     p_terms = [], i_terms = [], d_terms = []\<rparr>"

type_synonym sim_state = "PIDController \<times> TemperatureSystem \<times> series"

text \<open>One iteration of the main loop, for the index \<open>i\<close>.\<close>

definition loop_body :: "real \<Rightarrow> real \<Rightarrow> nat \<Rightarrow> sim_state \<Rightarrow> py_error + sim_state" where
  "loop_body dt target_temp i st =
     (case st of (pid, system, s) \<Rightarrow>
        (let current_time = real i * dt;
             current_temp = temp system
         in case PIDController_update pid current_temp dt of
              (pid1, control_output, P, I, D) \<Rightarrow>
                (let heater_power = np_clip control_output 0 100
                 in case TemperatureSystem_update system heater_power dt of
                      Inl e \<Rightarrow> Inl e
                    | Inr (system1, new_temp) \<Rightarrow>
                        Inr (pid1, system1,
                             s\<lparr>times := times s @ [current_time],
                               temperatures := temperatures s @ [current_temp],
                               setpoints := setpoints s @ [target_temp],
                               heater_powers := heater_powers s @ [heater_power],
                               p_terms := p_terms s @ [P],
                               i_terms := i_terms s @ [I],
                               d_terms := d_terms s @ [D]\<rparr>))))"

fun sim_loop :: "real \<Rightarrow> real \<Rightarrow> nat list \<Rightarrow> sim_state \<Rightarrow> py_error + sim_state" where
  "sim_loop dt target_temp [] st = Inr st"
| "sim_loop dt target_temp (i # rest) st =
     (case loop_body dt target_temp i st of
        Inl e \<Rightarrow> Inl e
      | Inr st1 \<Rightarrow> sim_loop dt target_temp rest st1)"

definition sim_dt :: real where
  "sim_dt = 1 / 10"

definition initial_state :: "real \<Rightarrow> real \<Rightarrow> real \<Rightarrow> real \<Rightarrow> sim_state" where
  "initial_state kp ki kd target_temp =
     (PIDController_init kp ki kd target_temp, TemperatureSystem_init 25 25, empty_series)"

definition run_simulation ::
  "real \<Rightarrow> real \<Rightarrow> real \<Rightarrow> real \<Rightarrow> real \<Rightarrow> py_error + SimulationRecord" where
  "run_simulation kp ki kd target_temp sim_time =
     (let dt = sim_dt;
          time_steps = py_int (float_div sim_time dt)
      in case sim_loop dt target_temp (py_range time_steps)
                (initial_state kp ki kd target_temp) of
           Inl e \<Rightarrow> Inl e
         | Inr (pid, system, s) \<Rightarrow>
             Inr \<lparr>times = times s, temperatures = temperatures s, setpoints = setpoints s,
                  heater_powers = heater_powers s, p_terms = p_terms s, i_terms = i_terms s,
                  d_terms = d_terms s, data_Kp = kp, data_Ki = ki, data_Kd = kd\<rparr>)"

text \<open>The value of \<^verbatim>\<open>time_steps\<close> in a run.\<close>

definition step_count :: "real \<Rightarrow> int" where
  "step_count sim_time = py_int (float_div sim_time sim_dt)"

text \<open>
  The controller and the plant as they stand when iteration \<open>n\<close> of the loop begins,
  that is, after the iterations \<open>0, \<dots>, n - 1\<close>.
\<close>

definition state_before ::
  "real \<Rightarrow> real \<Rightarrow> real \<Rightarrow> real \<Rightarrow> nat \<Rightarrow> py_error + sim_state" where
  "state_before kp ki kd target_temp n =
     sim_loop sim_dt target_temp [0..<n] (initial_state kp ki kd target_temp)"

subsection \<open>ui\_plot.py: performance metrics\<close>

text \<open>
  Subtraction of two one-dimensional arrays with numpy's broadcasting: equal lengths, or one
  of the two of length one; anything else raises \<^verbatim>\<open>ValueError\<close>.
\<close>

definition np_sub :: "real list \<Rightarrow> real list \<Rightarrow> py_error + real list" where
  "np_sub xs ys =
     (if length xs = length ys then Inr (map (\<lambda>(x, y). x - y) (zip xs ys))
      else if length ys = 1 then Inr (map (\<lambda>x. x - hd ys) xs)
      else if length xs = 1 then Inr (map (\<lambda>y. hd xs - y) ys)
      else Inl ValueError)"

definition py_index :: "'a list \<Rightarrow> nat \<Rightarrow> py_error + 'a" where
  "py_index xs i = (if i < length xs then Inr (xs ! i) else Inl IndexError)"

definition in_band :: "real \<Rightarrow> real \<Rightarrow> bool" where
  "in_band tolerance e = (\<bar>e\<bar> \<le> tolerance)"

text \<open>The search for the steady-state index; \<^verbatim>\<open>break\<close> is the return of \<open>Some i\<close>.\<close>

fun find_steady :: "real list \<Rightarrow> real \<Rightarrow> nat list \<Rightarrow> nat option" where
  "find_steady errors tolerance [] = None"
| "find_steady errors tolerance (i # rest) =
     (if in_band tolerance (errors ! i) then
        (let check_length = min 50 (length errors - i)
         in if list_all (in_band tolerance) (take check_length (drop i errors))
            then Some i
            else find_steady errors tolerance rest)
      else find_steady errors tolerance rest)"

text \<open>
  The truth value Python gives \<^verbatim>\<open>steady_state_idx\<close> in \<^verbatim>\<open>if steady_state_idx:\<close>:
  \<^verbatim>\<open>None\<close> and \<^verbatim>\<open>0\<close> are both false.
\<close>

fun py_truthy :: "nat option \<Rightarrow> bool" where
  "py_truthy None = False"
| "py_truthy (Some i) = (i \<noteq> 0)"

text \<open>
  What is printed: the settling time or the "cannot be measured" line, the overshoot, its
  percentage (\<open>None\<close> when \<^verbatim>\<open>setpoints[0]\<close> is zero and numpy yields a non-finite
  value), and the mean squared error (\<open>None\<close> for numpy's \<^verbatim>\<open>nan\<close> on an empty array).
\<close>

datatype settling = Reached real | NotReached

record performance =
  settling_time :: settling
  overshoot :: real
  overshoot_percent :: "real option"
  mse :: "real option"

definition np_max :: "real list \<Rightarrow> py_error + real" where
  "np_max xs = (case xs of [] \<Rightarrow> Inl ValueError | x # rest \<Rightarrow> Inr (fold max rest x))"

definition np_mean :: "real list \<Rightarrow> real option" where
  "np_mean xs = (if xs = [] then None else Some (sum_list xs / real (length xs)))"

definition steady_state_idx :: "real list \<Rightarrow> real \<Rightarrow> nat option" where
  "steady_state_idx errors tolerance = find_steady errors tolerance [0..<length errors]"

definition print_performance :: "'a SimulationRecord_scheme \<Rightarrow> py_error + performance" where
  "print_performance data =
     (let temps = temperatures data;
          sps = setpoints data
      in case np_sub sps temps of
           Inl e \<Rightarrow> Inl e
         | Inr errors \<Rightarrow>
             (case py_index sps 0 of
                Inl e \<Rightarrow> Inl e
              | Inr sp0 \<Rightarrow>
                  (let tolerance = sp0 * (2 / 100);
                       idx = steady_state_idx errors tolerance
                   in case (if py_truthy idx
                            then map_sum id Reached (py_index (times data) (the idx))
                            else Inr NotReached) of
                        Inl e \<Rightarrow> Inl e
                      | Inr st \<Rightarrow>
                          (case np_max temps of
                             Inl e \<Rightarrow> Inl e
                           | Inr m \<Rightarrow>
                               (let ov = m - sp0;
                                    ov_percent =
                                      (if sp0 = 0 then None else Some (ov / sp0 * 100))
                                in Inr \<lparr>settling_time = st, overshoot = ov,
                                        overshoot_percent = ov_percent,
                                        mse = np_mean (map (\<lambda>e. e ^ 2) errors)\<rparr>)))))"

subsection \<open>Notions used to state properties of a run\<close>

text \<open>
  Row \<open>i\<close> of the seven series; the sample that iteration \<open>i\<close> appends when it starts
  from the controller \<open>pid\<close> and the plant \<open>system\<close>; the seven lengths being \<open>n\<close>; and
  the constants a plant gets from its constructor in \<^verbatim>\<open>run_simulation\<close>.
\<close>

definition row :: "'a series_scheme \<Rightarrow> nat \<Rightarrow> real \<times> real \<times> real \<times> real \<times> real \<times> real \<times> real" where
  "row s i = (times s ! i, temperatures s ! i, setpoints s ! i, heater_powers s ! i,
              p_terms s ! i, i_terms s ! i, d_terms s ! i)"

definition sample_at ::
  "real \<Rightarrow> real \<Rightarrow> nat \<Rightarrow> PIDController \<Rightarrow> TemperatureSystem
    \<Rightarrow> real \<times> real \<times> real \<times> real \<times> real \<times> real \<times> real" where
  "sample_at dt target_temp i pid system =
     (case PIDController_update pid (temp system) dt of
        (pid1, out, P, I, D) \<Rightarrow>
          (real i * dt, temp system, target_temp, np_clip out 0 100, P, I, D))"

definition all_lengths :: "'a series_scheme \<Rightarrow> nat \<Rightarrow> bool" where
  "all_lengths s n = (length (times s) = n \<and> length (temperatures s) = n
     \<and> length (setpoints s) = n \<and> length (heater_powers s) = n
     \<and> length (p_terms s) = n \<and> length (i_terms s) = n \<and> length (d_terms s) = n)"

definition default_plant :: "TemperatureSystem \<Rightarrow> bool" where
  "default_plant system = (ambient system = 25 \<and> heat_capacity system = 5
     \<and> cooling_rate system = 3 / 100)"

text \<open>
  Index \<open>i\<close> qualifies as settled: the error there is within the tolerance, and so are the
  errors of the \<open>min 50 (length errors - i)\<close> samples starting at \<open>i\<close>.
\<close>

definition qualifies :: "real list \<Rightarrow> real \<Rightarrow> nat \<Rightarrow> bool" where
  "qualifies errors tolerance i =
     (in_band tolerance (errors ! i)
      \<and> list_all (in_band tolerance) (take (min 50 (length errors - i)) (drop i errors)))"

section \<open>Properties of the controller\<close>

lemma PIDController_update_fields:
  "fst (PIDController_update c x dt) =
     c\<lparr>integral := integral c + (setpoint c - x) * dt, prev_error := setpoint c - x\<rparr>"
  by (simp add: PIDController_update_def Let_def)

text \<open>
  C3: for \<open>dt > 0\<close> the returned output is
  \<open>Kp * error + Ki * integral_after + Kd * (error - prev_error_before) / dt\<close> with
  \<open>error = setpoint - current_value\<close> and \<open>integral_after = integral_before + error * dt\<close>,
  and afterwards \<open>prev_error\<close> is \<open>error\<close>.
\<close>

theorem update_output_formula:
  assumes "dt > 0"
    and "PIDController_update c x dt = (c', out, P, I, D)"
  shows "out = Kp c * (setpoint c - x) + Ki c * integral c'
               + Kd c * ((setpoint c - x) - prev_error c) / dt
         \<and> integral c' = integral c + (setpoint c - x) * dt
         \<and> prev_error c' = setpoint c - x"
  using assms by (auto simp add: PIDController_update_def Let_def)

theorem update_output_formula_witness:
  "(1/10 :: real) > 0
   \<and> PIDController_update (PIDController_init 5 (1/10) 1 200) 25 (1/10)
       = (\<lparr>Kp = 5, Ki = 1/10, Kd = 1, setpoint = 200, integral = 35/2, prev_error = 175\<rparr>,
          2626 + 3/4, 875, 7/4, 1750)
   \<and> (2626 + 3/4 :: real) = 5 * (200 - 25) + (1/10) * (35/2) + 1 * ((200 - 25) - 0) / (1/10)"
proof -
  have h1: "(1/10 :: real) > 0" by simp
  have h2: "PIDController_update (PIDController_init 5 (1/10) 1 200) 25 (1/10)
       = (\<lparr>Kp = 5, Ki = 1/10, Kd = 1, setpoint = 200, integral = 35/2, prev_error = 175\<rparr>,
          2626 + 3/4, 875, 7/4, 1750)"
    by (simp add: PIDController_update_def PIDController_init_def Let_def)
  from update_output_formula [OF h1 h2] h1 h2 show ?thesis
    by (simp add: PIDController_init_def)
qed

text \<open>
  C4: for \<open>dt \<le> 0\<close> the branch without the division is taken, so the derivative term is
  exactly \<open>0\<close> (and the output is \<open>P + I\<close>); the integral still advances by
  \<open>error * dt\<close> and \<open>prev_error\<close> is still overwritten with the error.
\<close>

theorem update_nonpositive_dt:
  assumes "dt \<le> 0"
    and "PIDController_update c x dt = (c', out, P, I, D)"
  shows "D = 0
         \<and> integral c' = integral c + (setpoint c - x) * dt
         \<and> prev_error c' = setpoint c - x
         \<and> out = Kp c * (setpoint c - x) + Ki c * (integral c + (setpoint c - x) * dt)"
  using assms by (auto simp add: PIDController_update_def Let_def)

theorem update_nonpositive_dt_witness:
  "(-1 :: real) \<le> 0
   \<and> PIDController_update \<lparr>Kp = 2, Ki = 3, Kd = 7, setpoint = 10, integral = 4, prev_error = 1\<rparr> 6 (-1)
       = (\<lparr>Kp = 2, Ki = 3, Kd = 7, setpoint = 10, integral = 0, prev_error = 4\<rparr>, 8, 8, 0, 0)"
proof -
  have h1: "(-1 :: real) \<le> 0" by simp
  have h2: "PIDController_update \<lparr>Kp = 2, Ki = 3, Kd = 7, setpoint = 10, integral = 4, prev_error = 1\<rparr> 6 (-1)
       = (\<lparr>Kp = 2, Ki = 3, Kd = 7, setpoint = 10, integral = 0, prev_error = 4\<rparr>, 8, 8, 0, 0)"
    by (simp add: PIDController_update_def Let_def)
  from update_nonpositive_dt [OF h1 h2] h1 h2 show ?thesis by simp
qed

text \<open>
  C9: \<open>reset\<close> sets \<open>integral\<close> and \<open>prev_error\<close> to \<open>0\<close> and leaves the gains and the
  setpoint as they were.
\<close>

theorem reset_frame:
  "integral (PIDController_reset c) = 0 \<and> prev_error (PIDController_reset c) = 0
   \<and> Kp (PIDController_reset c) = Kp c \<and> Ki (PIDController_reset c) = Ki c
   \<and> Kd (PIDController_reset c) = Kd c \<and> setpoint (PIDController_reset c) = setpoint c
   \<and> PIDController.more (PIDController_reset c) = PIDController.more c"
  by (simp add: PIDController_reset_def)

section \<open>Properties of the plant\<close>

text \<open>
  C6: with a heat capacity other than zero (the plant's invariant; the constructor fixes it at
  \<open>5\<close>), the heater power \<open>cooling_rate * heat_capacity * (temp - ambient)\<close> is a fixed
  point of \<open>update\<close>, for every \<open>dt\<close>: the plant is unchanged and its temperature is returned.
\<close>

theorem equilibrium_fixed_point:
  assumes "heat_capacity p \<noteq> 0"
  shows "TemperatureSystem_update p
           (cooling_rate p * heat_capacity p * (temp p - ambient p)) dt = Inr (p, temp p)"
  using assms by (simp add: TemperatureSystem_update_def Let_def)

theorem equilibrium_fixed_point_witness:
  "heat_capacity (TemperatureSystem_init 125 25) \<noteq> 0
   \<and> TemperatureSystem_update (TemperatureSystem_init 125 25) 15 (1/10)
       = Inr (TemperatureSystem_init 125 25, 125)"
proof -
  have h: "heat_capacity (TemperatureSystem_init 125 25) \<noteq> 0"
    by (simp add: TemperatureSystem_init_def)
  from equilibrium_fixed_point [OF h, of "1/10"] h show ?thesis
    by (simp add: TemperatureSystem_init_def)
qed

text \<open>
  C10: for a positive heat capacity and \<open>dt > 0\<close>, \<open>update\<close> is strictly monotone and
  affine in the heater power: from the same state, \<open>hp1 < hp2\<close> gives temperatures that
  differ by exactly \<open>(hp2 - hp1) * dt / heat_capacity\<close>.
\<close>

theorem update_affine_in_power:
  assumes "heat_capacity p > 0" and "dt > 0" and "hp1 < hp2"
  shows "\<exists>p1 t1 p2 t2.
           TemperatureSystem_update p hp1 dt = Inr (p1, t1)
         \<and> TemperatureSystem_update p hp2 dt = Inr (p2, t2)
         \<and> temp p1 = t1 \<and> temp p2 = t2
         \<and> t1 < t2
         \<and> t2 - t1 = (hp2 - hp1) * dt / heat_capacity p"
proof -
  from assms have "dt * hp1 / heat_capacity p < dt * hp2 / heat_capacity p"
    by (simp add: divide_strict_right_mono)
  with assms show ?thesis
    by (simp add: TemperatureSystem_update_def Let_def algebra_simps diff_divide_distrib)
qed

theorem update_affine_in_power_witness:
  "heat_capacity (TemperatureSystem_init 25 25) > 0 \<and> (1/10 :: real) > 0 \<and> (0::real) < 100
   \<and> TemperatureSystem_update (TemperatureSystem_init 25 25) 0 (1/10)
       = Inr (TemperatureSystem_init 25 25, 25)
   \<and> TemperatureSystem_update (TemperatureSystem_init 25 25) 100 (1/10)
       = Inr (TemperatureSystem_init 27 25, 27)"
proof -
  have h1: "heat_capacity (TemperatureSystem_init 25 25) > 0"
    by (simp add: TemperatureSystem_init_def)
  have h2: "(1/10 :: real) > 0" and h3: "(0::real) < 100" by simp_all
  from update_affine_in_power [OF h1 h2 h3] h1 show ?thesis
    by (simp add: TemperatureSystem_init_def TemperatureSystem_update_def Let_def)
qed

section \<open>The simulation loop\<close>

lemma loop_body_step:
  assumes "heat_capacity system \<noteq> 0" and "all_lengths s n"
  shows "\<exists>pid1 out P I D system1 s1.
      PIDController_update pid (temp system) dt = (pid1, out, P, I, D)
    \<and> TemperatureSystem_update system (np_clip out 0 100) dt = Inr (system1, temp system1)
    \<and> loop_body dt target_temp i (pid, system, s) = Inr (pid1, system1, s1)
    \<and> ambient system1 = ambient system
    \<and> heat_capacity system1 = heat_capacity system
    \<and> cooling_rate system1 = cooling_rate system
    \<and> all_lengths s1 (Suc n)
    \<and> (\<forall>k<n. row s1 k = row s k)
    \<and> row s1 n = sample_at dt target_temp i pid system"
proof -
  obtain pid1 out P I D where u: "PIDController_update pid (temp system) dt = (pid1, out, P, I, D)"
    by (metis prod_cases5)
  define system1 where "system1 = system\<lparr>temp := temp system
      + (np_clip out 0 100 / heat_capacity system
         - cooling_rate system * (temp system - ambient system)) * dt\<rparr>"
  define s1 where "s1 = s\<lparr>times := times s @ [real i * dt],
                               temperatures := temperatures s @ [temp system],
                               setpoints := setpoints s @ [target_temp],
                               heater_powers := heater_powers s @ [np_clip out 0 100],
                               p_terms := p_terms s @ [P],
                               i_terms := i_terms s @ [I],
                               d_terms := d_terms s @ [D]\<rparr>"
  have t: "TemperatureSystem_update system (np_clip out 0 100) dt = Inr (system1, temp system1)"
    using assms(1) by (simp add: TemperatureSystem_update_def Let_def system1_def)
  have b: "loop_body dt target_temp i (pid, system, s) = Inr (pid1, system1, s1)"
    by (simp add: loop_body_def Let_def u t s1_def)
  have c: "ambient system1 = ambient system" "heat_capacity system1 = heat_capacity system"
      "cooling_rate system1 = cooling_rate system"
    by (simp_all add: system1_def)
  have l: "all_lengths s1 (Suc n)"
    using assms(2) by (simp add: all_lengths_def s1_def)
  have old: "\<forall>k<n. row s1 k = row s k"
    using assms(2) by (simp add: all_lengths_def s1_def row_def nth_append)
  have new: "row s1 n = sample_at dt target_temp i pid system"
    using assms(2) by (simp add: all_lengths_def s1_def row_def sample_at_def u nth_append)
  from u t b c l old new show ?thesis by blast
qed

lemma sim_loop_append:
  "sim_loop dt target_temp (xs @ ys) st =
     (case sim_loop dt target_temp xs st of
        Inl e \<Rightarrow> Inl e
      | Inr st1 \<Rightarrow> sim_loop dt target_temp ys st1)"
  by (induction xs arbitrary: st) (simp_all split: sum.splits)

lemma state_before_0:
  "state_before kp ki kd target_temp 0 = Inr (initial_state kp ki kd target_temp)"
  by (simp add: state_before_def)

lemma state_before_Suc:
  "state_before kp ki kd target_temp (Suc n) =
     (case state_before kp ki kd target_temp n of
        Inl e \<Rightarrow> Inl e
      | Inr st \<Rightarrow> loop_body sim_dt target_temp n st)"
  by (simp add: state_before_def sim_loop_append split: sum.splits)

text \<open>
  The loop invariant: no iteration fails, the plant keeps its constants, the series grow by
  one row per iteration, and a row once written is the sample of its iteration.
\<close>

lemma state_before_invariant:
  "\<exists>pid system s. state_before kp ki kd target_temp n = Inr (pid, system, s)
     \<and> default_plant system \<and> all_lengths s n
     \<and> (n = 0 \<longrightarrow> temp system = 25)
     \<and> (\<forall>i<n. \<exists>pid_i system_i s_i.
            state_before kp ki kd target_temp i = Inr (pid_i, system_i, s_i)
          \<and> row s i = sample_at sim_dt target_temp i pid_i system_i)"
proof (induction n)
  case 0
  show ?case
    by (simp add: state_before_0 initial_state_def default_plant_def all_lengths_def
        TemperatureSystem_init_def empty_series_def)
next
  case (Suc n)
  then obtain pid system s where
    st: "state_before kp ki kd target_temp n = Inr (pid, system, s)"
    and dp: "default_plant system" and len: "all_lengths s n"
    and rows: "\<forall>i<n. \<exists>pid_i system_i s_i.
            state_before kp ki kd target_temp i = Inr (pid_i, system_i, s_i)
          \<and> row s i = sample_at sim_dt target_temp i pid_i system_i"
    by blast
  from dp have "heat_capacity system \<noteq> 0" by (simp add: default_plant_def)
  from loop_body_step [OF this len, of pid sim_dt target_temp n]
  obtain pid1 system1 s1 where
    b: "loop_body sim_dt target_temp n (pid, system, s) = Inr (pid1, system1, s1)"
    and c: "ambient system1 = ambient system" "heat_capacity system1 = heat_capacity system"
      "cooling_rate system1 = cooling_rate system"
    and l: "all_lengths s1 (Suc n)"
    and old: "\<forall>k<n. row s1 k = row s k"
    and new: "row s1 n = sample_at sim_dt target_temp n pid system"
    by blast
  have s1: "state_before kp ki kd target_temp (Suc n) = Inr (pid1, system1, s1)"
    by (simp add: state_before_Suc st b)
  have "\<exists>pid_i system_i s_i.
            state_before kp ki kd target_temp i = Inr (pid_i, system_i, s_i)
          \<and> row s1 i = sample_at sim_dt target_temp i pid_i system_i" if "i < Suc n" for i
  proof (cases "i = n")
    case True
    with st new show ?thesis by simp
  next
    case False
    with that have "i < n" by simp
    with rows old show ?thesis by simp
  qed
  with s1 dp c l show ?case
    by (simp add: default_plant_def)
qed

section \<open>The step count\<close>

lemma pow2_powr: "pow2 e = 2 powr (of_int e)"
  by (simp add: pow2_def powr_int)

lemma pow2_pos: "0 < pow2 e"
  by (simp add: pow2_def)

text \<open>The exponent of a number lying between two consecutive powers of two.\<close>

lemma binade:
  assumes "pow2 k \<le> \<bar>x\<bar>" and "\<bar>x\<bar> < pow2 (k + 1)"
  shows "\<lfloor>log 2 \<bar>x\<bar>\<rfloor> = k"
proof -
  from assms pow2_pos [of k] have pos: "0 < \<bar>x\<bar>" by linarith
  from assms have "2 powr (of_int k) \<le> \<bar>x\<bar> \<and> \<bar>x\<bar> < 2 powr (of_int (k + 1))"
    by (simp only: pow2_powr)
  with pos show ?thesis by (simp add: floor_log_eq_powr_iff)
qed

lemma fl_eval:
  assumes "pow2 k \<le> \<bar>x\<bar>" and "\<bar>x\<bar> < pow2 (k + 1)"
  shows "fl x = of_int (round_half_even (x / pow2 (k - 52))) * pow2 (k - 52)"
proof -
  from assms pow2_pos [of k] have "x \<noteq> 0" by auto
  with binade [OF assms] show ?thesis by (simp add: fl_def Let_def)
qed

lemma round_half_even_nonneg: "0 \<le> y \<Longrightarrow> 0 \<le> round_half_even y"
  by (simp add: round_half_even_def Let_def)

lemma round_half_even_nonpos:
  assumes "y \<le> 0"
  shows "round_half_even y \<le> 0"
proof (cases "y = 0")
  case True
  then show ?thesis by (simp add: round_half_even_def)
next
  case False
  with assms have "y < 0" by simp
  then have "\<lfloor>y\<rfloor> < 0" by (simp add: floor_less_iff)
  then show ?thesis by (simp add: round_half_even_def Let_def)
qed

lemma fl_nonneg:
  assumes "0 \<le> x"
  shows "0 \<le> fl x"
proof (cases "x = 0")
  case True
  then show ?thesis by (simp add: fl_def)
next
  case False
  define e where "e = \<lfloor>log 2 \<bar>x\<bar>\<rfloor> - 52"
  from assms pow2_pos [of e] have "0 \<le> x / pow2 e" by simp
  then have "0 \<le> round_half_even (x / pow2 e)" by (rule round_half_even_nonneg)
  with pow2_pos [of e] have "0 \<le> of_int (round_half_even (x / pow2 e)) * pow2 e" by simp
  with False show ?thesis by (simp add: fl_def Let_def e_def)
qed

lemma fl_nonpos:
  assumes "x \<le> 0"
  shows "fl x \<le> 0"
proof (cases "x = 0")
  case True
  then show ?thesis by (simp add: fl_def)
next
  case False
  define e where "e = \<lfloor>log 2 \<bar>x\<bar>\<rfloor> - 52"
  from assms pow2_pos [of e] have "x / pow2 e \<le> 0" by (simp add: divide_le_0_iff)
  then have "round_half_even (x / pow2 e) \<le> 0" by (rule round_half_even_nonpos)
  with pow2_pos [of e] have "of_int (round_half_even (x / pow2 e)) * pow2 e \<le> 0"
    by (simp add: mult_le_0_iff)
  with False show ?thesis by (simp add: fl_def Let_def e_def)
qed

text \<open>The doubles of some literals, and their quotients by \<open>0.1\<close>.\<close>

lemma fl_tenth: "fl (1 / 10) = 3602879701896397 / 36028797018963968"
  by (subst fl_eval [where k = "- 4"]) (simp_all add: pow2_def round_half_even_def Let_def)

lemma fl_300: "fl 300 = 300"
  by (subst fl_eval [where k = 8]) (simp_all add: pow2_def round_half_even_def Let_def)

lemma fl_3_tenths: "fl (3 / 10) = 5404319552844595 / 18014398509481984"
  by (subst fl_eval [where k = "- 2"]) (simp_all add: pow2_def round_half_even_def Let_def)

lemma fl_17_tenths: "fl (17 / 10) = 7656119366529843 / 4503599627370496"
  by (subst fl_eval [where k = 0]) (simp_all add: pow2_def round_half_even_def Let_def)

lemma fl_minus_1: "fl (- 1) = - 1"
  by (subst fl_eval [where k = 0]) (simp_all add: pow2_def round_half_even_def Let_def)

lemma float_div_300: "float_div 300 sim_dt = 3000"
  unfolding float_div_def sim_dt_def fl_tenth fl_300
  by (subst fl_eval [where k = 11]) (simp_all add: pow2_def round_half_even_def Let_def)

lemma float_div_tenth: "float_div (1 / 10) sim_dt = 1"
  unfolding float_div_def sim_dt_def fl_tenth
  by (subst fl_eval [where k = 0]) (simp_all add: pow2_def round_half_even_def Let_def)

lemma float_div_3_tenths: "float_div (3 / 10) sim_dt = 6755399441055743 / 2251799813685248"
  unfolding float_div_def sim_dt_def fl_tenth fl_3_tenths
  by (subst fl_eval [where k = 1]) (simp_all add: pow2_def round_half_even_def Let_def)

lemma float_div_17_tenths: "float_div (17 / 10) sim_dt = 17"
  unfolding float_div_def sim_dt_def fl_tenth fl_17_tenths
  by (subst fl_eval [where k = 4]) (simp_all add: pow2_def round_half_even_def Let_def)

lemma float_div_minus_1: "float_div (- 1) sim_dt = - 10"
  unfolding float_div_def sim_dt_def fl_tenth fl_minus_1
  by (subst fl_eval [where k = 3]) (simp_all add: pow2_def round_half_even_def Let_def)

lemma float_div_0: "float_div 0 sim_dt = 0"
  by (simp add: float_div_def fl_def)

text \<open>
  Step counts: \<open>3000\<close> for \<open>300\<close> seconds, \<open>2\<close> (not \<open>3\<close>) for \<open>0.3\<close>, \<open>17\<close> for \<open>1.7\<close>.
\<close>

lemma step_count_300: "step_count 300 = 3000"
  by (simp add: step_count_def float_div_300 py_int_def)

lemma step_count_tenth: "step_count (1 / 10) = 1"
  by (simp add: step_count_def float_div_tenth py_int_def)

lemma step_count_3_tenths: "step_count (3 / 10) = 2"
  by (simp add: step_count_def float_div_3_tenths py_int_def)

lemma step_count_17_tenths: "step_count (17 / 10) = 17"
  by (simp add: step_count_def float_div_17_tenths py_int_def)

lemma step_count_minus_1: "step_count (- 1) = - 10"
  by (simp add: step_count_def float_div_minus_1 py_int_def)

lemma step_count_0: "step_count 0 = 0"
  by (simp add: step_count_def float_div_0 py_int_def)

section \<open>Properties of a run\<close>

lemma run_simulation_steps:
  "run_simulation kp ki kd target_temp sim_time =
     (case sim_loop sim_dt target_temp (py_range (step_count sim_time))
             (initial_state kp ki kd target_temp) of
        Inl e \<Rightarrow> Inl e
      | Inr (pid, system, s) \<Rightarrow>
          Inr \<lparr>times = times s, temperatures = temperatures s, setpoints = setpoints s,
               heater_powers = heater_powers s, p_terms = p_terms s, i_terms = i_terms s,
               d_terms = d_terms s, data_Kp = kp, data_Ki = ki, data_Kd = kd\<rparr>)"
  by (simp add: run_simulation_def Let_def step_count_def)

lemma run_simulation_state:
  assumes "state_before kp ki kd target_temp (nat (step_count sim_time)) = Inr (pid, system, s)"
  shows "run_simulation kp ki kd target_temp sim_time =
     Inr \<lparr>times = times s, temperatures = temperatures s, setpoints = setpoints s,
          heater_powers = heater_powers s, p_terms = p_terms s, i_terms = i_terms s,
          d_terms = d_terms s, data_Kp = kp, data_Ki = ki, data_Kd = kd\<rparr>"
  using assms
  by (simp add: run_simulation_steps py_range_def state_before_def)

lemma iteration_step:
  "\<exists>pid system s pid1 out P I D system1 s1.
       state_before kp ki kd target_temp i = Inr (pid, system, s)
     \<and> (i = 0 \<longrightarrow> temp system = 25)
     \<and> PIDController_update pid (temp system) sim_dt = (pid1, out, P, I, D)
     \<and> TemperatureSystem_update system (np_clip out 0 100) sim_dt = Inr (system1, temp system1)
     \<and> state_before kp ki kd target_temp (Suc i) = Inr (pid1, system1, s1)"
proof -
  from state_before_invariant [of kp ki kd target_temp i]
  obtain pid system s where
    st: "state_before kp ki kd target_temp i = Inr (pid, system, s)"
    and dp: "default_plant system" and len: "all_lengths s i"
    and z: "i = 0 \<longrightarrow> temp system = 25"
    by blast
  from dp have "heat_capacity system \<noteq> 0" by (simp add: default_plant_def)
  from loop_body_step [OF this len, of pid sim_dt target_temp i]
  obtain pid1 out P I D system1 s1 where
    "PIDController_update pid (temp system) sim_dt = (pid1, out, P, I, D)"
    "TemperatureSystem_update system (np_clip out 0 100) sim_dt = Inr (system1, temp system1)"
    "loop_body sim_dt target_temp i (pid, system, s) = Inr (pid1, system1, s1)"
    by blast
  with st z show ?thesis
    by (simp add: state_before_Suc)
qed

text \<open>What a run returns, row by row.\<close>

lemma run_simulation_trace:
  "\<exists>data. run_simulation kp ki kd target_temp sim_time = Inr data
     \<and> all_lengths data (nat (step_count sim_time))
     \<and> (\<forall>i < nat (step_count sim_time).
          \<exists>pid system s pid1 out P I D system1 s1.
             state_before kp ki kd target_temp i = Inr (pid, system, s)
           \<and> (i = 0 \<longrightarrow> temp system = 25)
           \<and> PIDController_update pid (temp system) sim_dt = (pid1, out, P, I, D)
           \<and> TemperatureSystem_update system (np_clip out 0 100) sim_dt
               = Inr (system1, temp system1)
           \<and> state_before kp ki kd target_temp (Suc i) = Inr (pid1, system1, s1)
           \<and> row data i = (real i * sim_dt, temp system, target_temp, np_clip out 0 100, P, I, D))"
proof -
  define n where "n = nat (step_count sim_time)"
  from state_before_invariant [of kp ki kd target_temp n]
  obtain pid_n system_n s_n where
    st: "state_before kp ki kd target_temp n = Inr (pid_n, system_n, s_n)"
    and len: "all_lengths s_n n"
    and rows: "\<forall>i<n. \<exists>pid_i system_i s_i.
            state_before kp ki kd target_temp i = Inr (pid_i, system_i, s_i)
          \<and> row s_n i = sample_at sim_dt target_temp i pid_i system_i"
    by blast
  define data where "data = \<lparr>times = times s_n, temperatures = temperatures s_n,
          setpoints = setpoints s_n, heater_powers = heater_powers s_n, p_terms = p_terms s_n,
          i_terms = i_terms s_n, d_terms = d_terms s_n,
          data_Kp = kp, data_Ki = ki, data_Kd = kd\<rparr>"
  have run: "run_simulation kp ki kd target_temp sim_time = Inr data"
    using st unfolding n_def data_def by (rule run_simulation_state)
  have dlen: "all_lengths data n"
    using len by (simp add: all_lengths_def data_def)
  have drow: "row data i = row s_n i" for i
    by (simp add: row_def data_def)
  have "\<exists>pid system s pid1 out P I D system1 s1.
             state_before kp ki kd target_temp i = Inr (pid, system, s)
           \<and> (i = 0 \<longrightarrow> temp system = 25)
           \<and> PIDController_update pid (temp system) sim_dt = (pid1, out, P, I, D)
           \<and> TemperatureSystem_update system (np_clip out 0 100) sim_dt
               = Inr (system1, temp system1)
           \<and> state_before kp ki kd target_temp (Suc i) = Inr (pid1, system1, s1)
           \<and> row data i = (real i * sim_dt, temp system, target_temp, np_clip out 0 100, P, I, D)"
    if "i < n" for i
  proof -
    from iteration_step [of kp ki kd target_temp i]
    obtain pid system s pid1 out P I D system1 s1 where
      a: "state_before kp ki kd target_temp i = Inr (pid, system, s)"
      and z: "i = 0 \<longrightarrow> temp system = 25"
      and u: "PIDController_update pid (temp system) sim_dt = (pid1, out, P, I, D)"
      and t: "TemperatureSystem_update system (np_clip out 0 100) sim_dt
               = Inr (system1, temp system1)"
      and b: "state_before kp ki kd target_temp (Suc i) = Inr (pid1, system1, s1)"
      by blast
    from rows that a have "row s_n i = sample_at sim_dt target_temp i pid system"
      by auto
    then have "row data i = (real i * sim_dt, temp system, target_temp, np_clip out 0 100, P, I, D)"
      by (simp add: drow sample_at_def u)
    with a z u t b show ?thesis by blast
  qed
  with run dlen show ?thesis
    unfolding n_def by blast
qed

lemma run_simulation_lengths:
  assumes "run_simulation kp ki kd target_temp sim_time = Inr data"
  shows "all_lengths data (nat (step_count sim_time))"
  using run_simulation_trace [of kp ki kd target_temp sim_time] assms by auto

lemma scenario_steps: "nat (step_count 300) = 3000"
  by (simp add: step_count_300)

lemma np_clip_explicit:
  "np_clip x 0 100 = (if x < 0 then 0 else if 100 < x then 100 else x)"
  by (simp add: np_clip_def)

lemma np_clip_range: "0 \<le> np_clip x 0 100 \<and> np_clip x 0 100 \<le> 100"
  by (simp add: np_clip_def)

lemma first_update_scenario:
  "PIDController_update (PIDController_init 5 (1 / 10) 1 200) 25 sim_dt =
     (\<lparr>Kp = 5, Ki = 1 / 10, Kd = 1, setpoint = 200, integral = 35 / 2, prev_error = 175\<rparr>,
      10507 / 4, 875, 7 / 4, 1750)"
  by (simp add: PIDController_update_def PIDController_init_def Let_def sim_dt_def)

text \<open>
  C5: no run fails, and at every step \<open>i\<close> the heater power stored in the record is the
  clamp of the output \<open>out\<close> the controller returned at that step: \<open>0\<close> when \<open>out < 0\<close>,
  \<open>100\<close> when \<open>out > 100\<close>, and \<open>out\<close> itself in between. It therefore lies in
  \<open>[0, 100]\<close>, and it is the power the plant is updated with. An output of \<open>1000000\<close> is
  clamped to exactly \<open>100\<close> and one of \<open>- 50\<close> to exactly \<open>0\<close>.
\<close>

theorem heater_power_clamped:
  "(\<exists>data. run_simulation kp ki kd target_temp sim_time = Inr data
     \<and> (\<forall>i < length (heater_powers data).
          \<exists>pid system s pid1 out P I D system1 s1.
             state_before kp ki kd target_temp i = Inr (pid, system, s)
           \<and> PIDController_update pid (temp system) sim_dt = (pid1, out, P, I, D)
           \<and> heater_powers data ! i = np_clip out 0 100
           \<and> heater_powers data ! i = (if out < 0 then 0 else if 100 < out then 100 else out)
           \<and> 0 \<le> heater_powers data ! i \<and> heater_powers data ! i \<le> 100
           \<and> TemperatureSystem_update system (heater_powers data ! i) sim_dt
               = Inr (system1, temp system1)
           \<and> state_before kp ki kd target_temp (Suc i) = Inr (pid1, system1, s1)))
   \<and> np_clip 1000000 0 100 = 100 \<and> np_clip (- 50) 0 100 = 0
   \<and> (\<forall>x. np_clip x 0 100 = (if x < 0 then 0 else if 100 < x then 100 else x))"
proof -
  from run_simulation_trace [of kp ki kd target_temp sim_time]
  obtain data where run: "run_simulation kp ki kd target_temp sim_time = Inr data"
    and len: "all_lengths data (nat (step_count sim_time))"
    and rows: "\<forall>i < nat (step_count sim_time).
          \<exists>pid system s pid1 out P I D system1 s1.
             state_before kp ki kd target_temp i = Inr (pid, system, s)
           \<and> (i = 0 \<longrightarrow> temp system = 25)
           \<and> PIDController_update pid (temp system) sim_dt = (pid1, out, P, I, D)
           \<and> TemperatureSystem_update system (np_clip out 0 100) sim_dt
               = Inr (system1, temp system1)
           \<and> state_before kp ki kd target_temp (Suc i) = Inr (pid1, system1, s1)
           \<and> row data i = (real i * sim_dt, temp system, target_temp, np_clip out 0 100, P, I, D)"
    by blast
  have "\<exists>pid system s pid1 out P I D system1 s1.
             state_before kp ki kd target_temp i = Inr (pid, system, s)
           \<and> PIDController_update pid (temp system) sim_dt = (pid1, out, P, I, D)
           \<and> heater_powers data ! i = np_clip out 0 100
           \<and> heater_powers data ! i = (if out < 0 then 0 else if 100 < out then 100 else out)
           \<and> 0 \<le> heater_powers data ! i \<and> heater_powers data ! i \<le> 100
           \<and> TemperatureSystem_update system (heater_powers data ! i) sim_dt
               = Inr (system1, temp system1)
           \<and> state_before kp ki kd target_temp (Suc i) = Inr (pid1, system1, s1)"
    if "i < length (heater_powers data)" for i
  proof -
    from that len have "i < nat (step_count sim_time)" by (simp add: all_lengths_def)
    from rows [rule_format, OF this] obtain pid system s pid1 out P I D system1 s1 where
      a: "state_before kp ki kd target_temp i = Inr (pid, system, s)"
      and u: "PIDController_update pid (temp system) sim_dt = (pid1, out, P, I, D)"
      and t: "TemperatureSystem_update system (np_clip out 0 100) sim_dt
               = Inr (system1, temp system1)"
      and b: "state_before kp ki kd target_temp (Suc i) = Inr (pid1, system1, s1)"
      and r: "row data i = (real i * sim_dt, temp system, target_temp, np_clip out 0 100, P, I, D)"
      by (elim exE conjE) (rule that)
    from r have h: "heater_powers data ! i = np_clip out 0 100" by (simp add: row_def)
    from h have h': "heater_powers data ! i
        = (if out < 0 then 0 else if 100 < out then 100 else out)"
      by (simp add: np_clip_explicit)
    from h t have t': "TemperatureSystem_update system (heater_powers data ! i) sim_dt
        = Inr (system1, temp system1)" by simp
    from h np_clip_range [of out] have rg: "0 \<le> heater_powers data ! i"
      "heater_powers data ! i \<le> 100" by simp_all
    from a u h h' rg t' b show ?thesis by blast
  qed
  with run have "\<exists>data. run_simulation kp ki kd target_temp sim_time = Inr data
     \<and> (\<forall>i < length (heater_powers data).
          \<exists>pid system s pid1 out P I D system1 s1.
             state_before kp ki kd target_temp i = Inr (pid, system, s)
           \<and> PIDController_update pid (temp system) sim_dt = (pid1, out, P, I, D)
           \<and> heater_powers data ! i = np_clip out 0 100
           \<and> heater_powers data ! i = (if out < 0 then 0 else if 100 < out then 100 else out)
           \<and> 0 \<le> heater_powers data ! i \<and> heater_powers data ! i \<le> 100
           \<and> TemperatureSystem_update system (heater_powers data ! i) sim_dt
               = Inr (system1, temp system1)
           \<and> state_before kp ki kd target_temp (Suc i) = Inr (pid1, system1, s1))"
    by blast
  moreover have "np_clip 1000000 0 100 = 100" "np_clip (- 50) 0 100 = 0"
    by (simp_all add: np_clip_def)
  moreover have "\<forall>x. np_clip x 0 100 = (if x < 0 then 0 else if 100 < x then 100 else x)"
    by (simp add: np_clip_explicit)
  ultimately show ?thesis by blast
qed

lemma first_update_in_range:
  "PIDController_update (PIDController_init (1 / 5) 0 0 200) 25 sim_dt =
     (\<lparr>Kp = 1 / 5, Ki = 0, Kd = 0, setpoint = 200, integral = 35 / 2, prev_error = 175\<rparr>,
      35, 35, 0, 0)"
  by (simp add: PIDController_update_def PIDController_init_def Let_def sim_dt_def)

theorem heater_power_clamped_witness:
  "(\<exists>data. run_simulation 5 (1 / 10) 1 200 300 = Inr data
      \<and> 0 < length (heater_powers data)
      \<and> heater_powers data ! 0 = 100)
   \<and> (\<exists>data. run_simulation (1 / 5) 0 0 200 300 = Inr data
      \<and> 0 < length (heater_powers data)
      \<and> heater_powers data ! 0 = 35)"
proof -
  have "\<exists>data. run_simulation kp ki kd 200 300 = Inr data
      \<and> 0 < length (heater_powers data)
      \<and> heater_powers data ! 0 = h"
    if upd: "PIDController_update (PIDController_init kp ki kd 200) 25 sim_dt
               = (pid1, out, P, I, D)"
      and clamp: "(if out < 0 then 0 else if 100 < out then 100 else out) = h"
    for kp ki kd pid1 out P I D h
  proof -
    from heater_power_clamped [of kp ki kd 200 300, THEN conjunct1]
    obtain data where run: "run_simulation kp ki kd 200 300 = Inr data"
      and rows: "\<forall>i < length (heater_powers data).
          \<exists>pid system s pid1 out P I D system1 s1.
             state_before kp ki kd 200 i = Inr (pid, system, s)
           \<and> PIDController_update pid (temp system) sim_dt = (pid1, out, P, I, D)
           \<and> heater_powers data ! i = np_clip out 0 100
           \<and> heater_powers data ! i = (if out < 0 then 0 else if 100 < out then 100 else out)
           \<and> 0 \<le> heater_powers data ! i \<and> heater_powers data ! i \<le> 100
           \<and> TemperatureSystem_update system (heater_powers data ! i) sim_dt
               = Inr (system1, temp system1)
           \<and> state_before kp ki kd 200 (Suc i) = Inr (pid1, system1, s1)"
      by (elim exE conjE) (rule that)
    from run_simulation_lengths [OF run] have pos: "0 < length (heater_powers data)"
      by (simp add: all_lengths_def scenario_steps)
    from rows [rule_format, OF this] obtain pid system s pid1' out' P' I' D' where
      a: "state_before kp ki kd 200 0 = Inr (pid, system, s)"
      and u: "PIDController_update pid (temp system) sim_dt = (pid1', out', P', I', D')"
      and h: "heater_powers data ! 0
                = (if out' < 0 then 0 else if 100 < out' then 100 else out')"
      by (elim exE conjE) (rule that)
    from a have "pid = PIDController_init kp ki kd 200" "temp system = 25"
      by (auto simp add: state_before_0 initial_state_def TemperatureSystem_init_def)
    with u upd have "out' = out" by simp
    with h have "heater_powers data ! 0
        = (if out < 0 then 0 else if 100 < out then 100 else out)" by (simp only:)
    with clamp have "heater_powers data ! 0 = h" by (simp only:)
    with run pos show ?thesis by blast
  qed
  from this [OF first_update_scenario] this [OF first_update_in_range]
  show ?thesis by simp
qed

lemma floor_steps:
  "int (nat (step_count sim_time))
     = (if 0 \<le> sim_time then \<lfloor>float_div sim_time sim_dt\<rfloor> else 0)"
proof (cases "0 \<le> sim_time")
  case True
  then have "0 \<le> fl sim_time" by (rule fl_nonneg)
  moreover have "0 \<le> fl sim_dt" by (rule fl_nonneg) (simp add: sim_dt_def)
  ultimately have "0 \<le> fl sim_time / fl sim_dt" by simp
  then have "0 \<le> float_div sim_time sim_dt"
    unfolding float_div_def by (rule fl_nonneg)
  with True show ?thesis by (simp add: step_count_def py_int_def)
next
  case False
  then have "fl sim_time \<le> 0" by (simp add: fl_nonpos)
  moreover have "0 \<le> fl sim_dt" by (rule fl_nonneg) (simp add: sim_dt_def)
  ultimately have "fl sim_time / fl sim_dt \<le> 0" by (simp add: divide_le_0_iff)
  then have q: "float_div sim_time sim_dt \<le> 0"
    unfolding float_div_def by (rule fl_nonpos)
  then have "\<lceil>float_div sim_time sim_dt\<rceil> \<le> 0" "\<lfloor>float_div sim_time sim_dt\<rfloor> \<le> 0"
    by (simp_all add: ceiling_le_iff floor_le_iff)
  then have "step_count sim_time \<le> 0" by (simp add: step_count_def py_int_def)
  with False show ?thesis by simp
qed

text \<open>
  C7, as stated, at a negative simulation time: \<^verbatim>\<open>range\<close> of a negative step count is
  empty, so the series have length \<open>0\<close>, which is not \<open>\<lfloor>- 1 / dt\<rfloor> = - 10\<close>, whether the
  quotient is the real one or the double the program computes.
\<close>

theorem series_counterexample:
  "run_simulation 5 (1 / 10) 1 200 (- 1) =
     Inr \<lparr>times = [], temperatures = [], setpoints = [], heater_powers = [], p_terms = [],
          i_terms = [], d_terms = [], data_Kp = 5, data_Ki = 1 / 10, data_Kd = 1\<rparr>
   \<and> int (length (times \<lparr>times = [], temperatures = [], setpoints = [], heater_powers = [],
          p_terms = [], i_terms = [], d_terms = [],
          data_Kp = 5 :: real, data_Ki = 1 / 10 :: real, data_Kd = 1 :: real\<rparr>))
       \<noteq> \<lfloor>float_div (- 1) sim_dt\<rfloor>
   \<and> int (length (times \<lparr>times = [], temperatures = [], setpoints = [], heater_powers = [],
          p_terms = [], i_terms = [], d_terms = [],
          data_Kp = 5 :: real, data_Ki = 1 / 10 :: real, data_Kd = 1 :: real\<rparr>))
       \<noteq> \<lfloor>(- 1 :: real) / sim_dt\<rfloor>"
proof -
  have "run_simulation 5 (1 / 10) 1 200 (- 1) =
     Inr \<lparr>times = [], temperatures = [], setpoints = [], heater_powers = [], p_terms = [],
          i_terms = [], d_terms = [], data_Kp = 5, data_Ki = 1 / 10, data_Kd = 1\<rparr>"
    by (simp add: run_simulation_steps step_count_minus_1 py_range_def initial_state_def
        empty_series_def)
  moreover have "\<lfloor>float_div (- 1) sim_dt\<rfloor> = - 10"
    by (simp add: float_div_minus_1)
  moreover have "\<lfloor>(- 1 :: real) / sim_dt\<rfloor> = - 10"
    by (simp add: sim_dt_def)
  ultimately show ?thesis by simp
qed

text \<open>
  C7, amended: every run returns seven series of one length, which is
  \<open>\<lfloor>sim_time / dt\<rfloor>\<close> when \<open>sim_time \<ge> 0\<close> and \<open>0\<close> otherwise, the quotient being the one
  the program computes, in double precision with \<open>dt = 0.1\<close>; row
  \<open>i\<close> of the seven series is the sample of iteration \<open>i\<close>: its time \<open>i * dt\<close>, the plant
  temperature when the iteration starts, the target, the clamped output and the three terms
  the controller returns for that temperature. The run with gains \<open>5, 0.1, 1\<close>, target
  \<open>200\<close> and \<open>sim_time = 300\<close> has exactly \<open>3000\<close> samples, its first temperature is
  \<open>25\<close> and all its heater powers lie in \<open>[0, 100]\<close>.
\<close>

theorem series_lengths:
  "(\<exists>data. run_simulation kp ki kd target_temp sim_time = Inr data
      \<and> int (length (times data)) = (if 0 \<le> sim_time then \<lfloor>float_div sim_time sim_dt\<rfloor> else 0)
      \<and> length (temperatures data) = length (times data)
      \<and> length (setpoints data) = length (times data)
      \<and> length (heater_powers data) = length (times data)
      \<and> length (p_terms data) = length (times data)
      \<and> length (i_terms data) = length (times data)
      \<and> length (d_terms data) = length (times data)
      \<and> (\<forall>i < length (times data).
            \<exists>pid system s pid1 out P I D.
                state_before kp ki kd target_temp i = Inr (pid, system, s)
              \<and> PIDController_update pid (temp system) sim_dt = (pid1, out, P, I, D)
              \<and> times data ! i = real i * sim_dt
              \<and> temperatures data ! i = temp system
              \<and> setpoints data ! i = target_temp
              \<and> heater_powers data ! i = np_clip out 0 100
              \<and> p_terms data ! i = P \<and> i_terms data ! i = I \<and> d_terms data ! i = D))
   \<and> (\<exists>data. run_simulation 5 (1 / 10) 1 200 300 = Inr data
      \<and> length (times data) = 3000 \<and> length (temperatures data) = 3000
      \<and> length (setpoints data) = 3000 \<and> length (heater_powers data) = 3000
      \<and> length (p_terms data) = 3000 \<and> length (i_terms data) = 3000
      \<and> length (d_terms data) = 3000
      \<and> temperatures data ! 0 = 25
      \<and> list_all (\<lambda>h. 0 \<le> h \<and> h \<le> 100) (heater_powers data))"
proof -
  have general: "\<exists>data. run_simulation kp ki kd target_temp sim_time = Inr data
      \<and> all_lengths data (nat (step_count sim_time))
      \<and> (\<forall>i < length (times data).
            \<exists>pid system s pid1 out P I D.
                state_before kp ki kd target_temp i = Inr (pid, system, s)
              \<and> PIDController_update pid (temp system) sim_dt = (pid1, out, P, I, D)
              \<and> times data ! i = real i * sim_dt
              \<and> temperatures data ! i = temp system
              \<and> setpoints data ! i = target_temp
              \<and> heater_powers data ! i = np_clip out 0 100
              \<and> p_terms data ! i = P \<and> i_terms data ! i = I \<and> d_terms data ! i = D)"
    for kp ki kd target_temp sim_time
  proof -
    from run_simulation_trace [of kp ki kd target_temp sim_time]
    obtain data where run: "run_simulation kp ki kd target_temp sim_time = Inr data"
      and len: "all_lengths data (nat (step_count sim_time))"
      and rows: "\<forall>i < nat (step_count sim_time).
          \<exists>pid system s pid1 out P I D system1 s1.
             state_before kp ki kd target_temp i = Inr (pid, system, s)
           \<and> (i = 0 \<longrightarrow> temp system = 25)
           \<and> PIDController_update pid (temp system) sim_dt = (pid1, out, P, I, D)
           \<and> TemperatureSystem_update system (np_clip out 0 100) sim_dt
               = Inr (system1, temp system1)
           \<and> state_before kp ki kd target_temp (Suc i) = Inr (pid1, system1, s1)
           \<and> row data i = (real i * sim_dt, temp system, target_temp, np_clip out 0 100, P, I, D)"
      by (elim exE conjE) (rule that)
    have "\<exists>pid system s pid1 out P I D.
                state_before kp ki kd target_temp i = Inr (pid, system, s)
              \<and> PIDController_update pid (temp system) sim_dt = (pid1, out, P, I, D)
              \<and> times data ! i = real i * sim_dt
              \<and> temperatures data ! i = temp system
              \<and> setpoints data ! i = target_temp
              \<and> heater_powers data ! i = np_clip out 0 100
              \<and> p_terms data ! i = P \<and> i_terms data ! i = I \<and> d_terms data ! i = D"
      if "i < length (times data)" for i
    proof -
      from that len have "i < nat (step_count sim_time)" by (simp add: all_lengths_def)
      from rows [rule_format, OF this] obtain pid system s pid1 out P I D where
        a: "state_before kp ki kd target_temp i = Inr (pid, system, s)"
        and u: "PIDController_update pid (temp system) sim_dt = (pid1, out, P, I, D)"
        and r: "row data i
                 = (real i * sim_dt, temp system, target_temp, np_clip out 0 100, P, I, D)"
        by (elim exE conjE) (rule that)
      from r have "times data ! i = real i * sim_dt" "temperatures data ! i = temp system"
        "setpoints data ! i = target_temp" "heater_powers data ! i = np_clip out 0 100"
        "p_terms data ! i = P" "i_terms data ! i = I" "d_terms data ! i = D"
        by (simp_all add: row_def)
      with a u show ?thesis by simp
    qed
    with run len show ?thesis by blast
  qed
  have part1: "\<exists>data. run_simulation kp ki kd target_temp sim_time = Inr data
      \<and> int (length (times data)) = (if 0 \<le> sim_time then \<lfloor>float_div sim_time sim_dt\<rfloor> else 0)
      \<and> length (temperatures data) = length (times data)
      \<and> length (setpoints data) = length (times data)
      \<and> length (heater_powers data) = length (times data)
      \<and> length (p_terms data) = length (times data)
      \<and> length (i_terms data) = length (times data)
      \<and> length (d_terms data) = length (times data)
      \<and> (\<forall>i < length (times data).
            \<exists>pid system s pid1 out P I D.
                state_before kp ki kd target_temp i = Inr (pid, system, s)
              \<and> PIDController_update pid (temp system) sim_dt = (pid1, out, P, I, D)
              \<and> times data ! i = real i * sim_dt
              \<and> temperatures data ! i = temp system
              \<and> setpoints data ! i = target_temp
              \<and> heater_powers data ! i = np_clip out 0 100
              \<and> p_terms data ! i = P \<and> i_terms data ! i = I \<and> d_terms data ! i = D)"
  proof -
    from general [of kp ki kd target_temp sim_time]
    obtain data where run: "run_simulation kp ki kd target_temp sim_time = Inr data"
      and len: "all_lengths data (nat (step_count sim_time))"
      and rows: "\<forall>i < length (times data).
            \<exists>pid system s pid1 out P I D.
                state_before kp ki kd target_temp i = Inr (pid, system, s)
              \<and> PIDController_update pid (temp system) sim_dt = (pid1, out, P, I, D)
              \<and> times data ! i = real i * sim_dt
              \<and> temperatures data ! i = temp system
              \<and> setpoints data ! i = target_temp
              \<and> heater_powers data ! i = np_clip out 0 100
              \<and> p_terms data ! i = P \<and> i_terms data ! i = I \<and> d_terms data ! i = D"
      by (elim exE conjE) (rule that)
    from len have l: "int (length (times data))
        = (if 0 \<le> sim_time then \<lfloor>float_div sim_time sim_dt\<rfloor> else 0)"
      unfolding all_lengths_def using floor_steps [of sim_time] by simp
    from len have ls: "length (temperatures data) = length (times data)"
      "length (setpoints data) = length (times data)"
      "length (heater_powers data) = length (times data)"
      "length (p_terms data) = length (times data)"
      "length (i_terms data) = length (times data)"
      "length (d_terms data) = length (times data)"
      by (simp_all add: all_lengths_def)
    from run l ls rows show ?thesis by blast
  qed
  have part2: "\<exists>data. run_simulation 5 (1 / 10) 1 200 300 = Inr data
      \<and> length (times data) = 3000 \<and> length (temperatures data) = 3000
      \<and> length (setpoints data) = 3000 \<and> length (heater_powers data) = 3000
      \<and> length (p_terms data) = 3000 \<and> length (i_terms data) = 3000
      \<and> length (d_terms data) = 3000
      \<and> temperatures data ! 0 = 25
      \<and> list_all (\<lambda>h. 0 \<le> h \<and> h \<le> 100) (heater_powers data)"
  proof -
    from general [of 5 "1 / 10" 1 200 300]
    obtain data where run: "run_simulation 5 (1 / 10) 1 200 300 = Inr data"
      and len: "all_lengths data (nat (step_count 300))"
      and rows: "\<forall>i < length (times data).
            \<exists>pid system s pid1 out P I D.
                state_before 5 (1 / 10) 1 200 i = Inr (pid, system, s)
              \<and> PIDController_update pid (temp system) sim_dt = (pid1, out, P, I, D)
              \<and> times data ! i = real i * sim_dt
              \<and> temperatures data ! i = temp system
              \<and> setpoints data ! i = 200
              \<and> heater_powers data ! i = np_clip out 0 100
              \<and> p_terms data ! i = P \<and> i_terms data ! i = I \<and> d_terms data ! i = D"
      by (elim exE conjE) (rule that)
    from len have ls: "length (times data) = 3000" "length (temperatures data) = 3000"
      "length (setpoints data) = 3000" "length (heater_powers data) = 3000"
      "length (p_terms data) = 3000" "length (i_terms data) = 3000"
      "length (d_terms data) = 3000"
      by (simp_all add: all_lengths_def scenario_steps)
    from ls have "0 < length (times data)" by simp
    from rows [rule_format, OF this] obtain pid system s where
      "state_before 5 (1 / 10) 1 200 0 = Inr (pid, system, s)"
      "temperatures data ! 0 = temp system"
      by (elim exE conjE) (rule that)
    then have t0: "temperatures data ! 0 = 25"
      by (auto simp add: state_before_0 initial_state_def TemperatureSystem_init_def)
    have "0 \<le> heater_powers data ! i \<and> heater_powers data ! i \<le> 100"
      if "i < length (heater_powers data)" for i
    proof -
      from that ls have "i < length (times data)" by simp
      from rows [rule_format, OF this] obtain out where
        "heater_powers data ! i = np_clip out 0 100"
        by (elim exE conjE) (rule that)
      with np_clip_range [of out] show ?thesis by simp
    qed
    then have "list_all (\<lambda>h. 0 \<le> h \<and> h \<le> 100) (heater_powers data)"
      by (simp add: list_all_length)
    with run ls t0 show ?thesis by blast
  qed
  from part1 part2 show ?thesis by (rule conjI)
qed

theorem series_lengths_witness:
  "\<exists>data. run_simulation 5 (1 / 10) 1 200 300 = Inr data
     \<and> length (times data) = 3000
     \<and> 1 < length (times data)
     \<and> times data ! 1 = 1 / 10 \<and> setpoints data ! 1 = 200"
proof -
  from series_lengths [of 5 "1 / 10" 1 200 300, THEN conjunct1]
  obtain data where run: "run_simulation 5 (1 / 10) 1 200 300 = Inr data"
    and len: "int (length (times data))
               = (if 0 \<le> (300::real) then \<lfloor>float_div 300 sim_dt\<rfloor> else 0)"
    and rows: "\<forall>i < length (times data).
            \<exists>pid system s pid1 out P I D.
                state_before 5 (1 / 10) 1 200 i = Inr (pid, system, s)
              \<and> PIDController_update pid (temp system) sim_dt = (pid1, out, P, I, D)
              \<and> times data ! i = real i * sim_dt
              \<and> temperatures data ! i = temp system
              \<and> setpoints data ! i = 200
              \<and> heater_powers data ! i = np_clip out 0 100
              \<and> p_terms data ! i = P \<and> i_terms data ! i = I \<and> d_terms data ! i = D"
    by (elim exE conjE) (rule that)
  from len have l: "length (times data) = 3000" by (simp add: float_div_300)
  then have one: "1 < length (times data)" by simp
  from rows [rule_format, OF one] have "times data ! 1 = 1 / 10" "setpoints data ! 1 = 200"
    by (auto simp add: sim_dt_def)
  with run l one show ?thesis by blast
qed

text \<open>
  C8: the temperature recorded at index \<open>i\<close> is the temperature of the plant as it stands
  when iteration \<open>i\<close> begins, after the \<open>i\<close> plant updates of the earlier iterations: at
  index \<open>0\<close> it is the initial \<open>25\<close>, and at index \<open>i + 1\<close> it is the temperature the plant
  update of iteration \<open>i\<close> produced. The controller of iteration \<open>i\<close> is fed exactly the
  recorded temperature, and the recorded terms are the ones it returns.
\<close>

theorem temperature_recorded_before_update:
  "\<exists>data. run_simulation kp ki kd target_temp sim_time = Inr data
     \<and> (\<forall>i < length (temperatures data).
          \<exists>pid system s pid1 out P I D system1 s1.
             state_before kp ki kd target_temp i = Inr (pid, system, s)
           \<and> temperatures data ! i = temp system
           \<and> (i = 0 \<longrightarrow> temperatures data ! i = 25)
           \<and> PIDController_update pid (temperatures data ! i) sim_dt = (pid1, out, P, I, D)
           \<and> p_terms data ! i = P \<and> i_terms data ! i = I \<and> d_terms data ! i = D
           \<and> TemperatureSystem_update system (np_clip out 0 100) sim_dt
               = Inr (system1, temp system1)
           \<and> state_before kp ki kd target_temp (Suc i) = Inr (pid1, system1, s1)
           \<and> (Suc i < length (temperatures data)
                 \<longrightarrow> temperatures data ! Suc i = temp system1))"
proof -
  from run_simulation_trace [of kp ki kd target_temp sim_time]
  obtain data where run: "run_simulation kp ki kd target_temp sim_time = Inr data"
    and len: "all_lengths data (nat (step_count sim_time))"
    and rows: "\<forall>i < nat (step_count sim_time).
          \<exists>pid system s pid1 out P I D system1 s1.
             state_before kp ki kd target_temp i = Inr (pid, system, s)
           \<and> (i = 0 \<longrightarrow> temp system = 25)
           \<and> PIDController_update pid (temp system) sim_dt = (pid1, out, P, I, D)
           \<and> TemperatureSystem_update system (np_clip out 0 100) sim_dt
               = Inr (system1, temp system1)
           \<and> state_before kp ki kd target_temp (Suc i) = Inr (pid1, system1, s1)
           \<and> row data i = (real i * sim_dt, temp system, target_temp, np_clip out 0 100, P, I, D)"
    by (elim exE conjE) (rule that)
  from len have n: "length (temperatures data) = nat (step_count sim_time)"
    by (simp add: all_lengths_def)
  have "\<exists>pid system s pid1 out P I D system1 s1.
             state_before kp ki kd target_temp i = Inr (pid, system, s)
           \<and> temperatures data ! i = temp system
           \<and> (i = 0 \<longrightarrow> temperatures data ! i = 25)
           \<and> PIDController_update pid (temperatures data ! i) sim_dt = (pid1, out, P, I, D)
           \<and> p_terms data ! i = P \<and> i_terms data ! i = I \<and> d_terms data ! i = D
           \<and> TemperatureSystem_update system (np_clip out 0 100) sim_dt
               = Inr (system1, temp system1)
           \<and> state_before kp ki kd target_temp (Suc i) = Inr (pid1, system1, s1)
           \<and> (Suc i < length (temperatures data)
                 \<longrightarrow> temperatures data ! Suc i = temp system1)"
    if "i < length (temperatures data)" for i
  proof -
    from that n have "i < nat (step_count sim_time)" by simp
    from rows [rule_format, OF this] obtain pid system s pid1 out P I D system1 s1 where
      a: "state_before kp ki kd target_temp i = Inr (pid, system, s)"
      and z: "i = 0 \<longrightarrow> temp system = 25"
      and u: "PIDController_update pid (temp system) sim_dt = (pid1, out, P, I, D)"
      and t: "TemperatureSystem_update system (np_clip out 0 100) sim_dt
               = Inr (system1, temp system1)"
      and b: "state_before kp ki kd target_temp (Suc i) = Inr (pid1, system1, s1)"
      and r: "row data i = (real i * sim_dt, temp system, target_temp, np_clip out 0 100, P, I, D)"
      by (elim exE conjE) (rule that)
    from r have f: "temperatures data ! i = temp system"
      "p_terms data ! i = P" "i_terms data ! i = I" "d_terms data ! i = D"
      by (simp_all add: row_def)
    have nxt: "temperatures data ! Suc i = temp system1" if "Suc i < length (temperatures data)"
    proof -
      from that n have "Suc i < nat (step_count sim_time)" by simp
      from rows [rule_format, OF this] obtain pid' system' s' out' P' I' D' where
        a': "state_before kp ki kd target_temp (Suc i) = Inr (pid', system', s')"
        and r': "row data (Suc i)
            = (real (Suc i) * sim_dt, temp system', target_temp, np_clip out' 0 100, P', I', D')"
        by (elim exE conjE) (rule that)
      from a' b have "system' = system1" by simp
      with r' show ?thesis by (simp add: row_def)
    qed
    from z f have z': "i = 0 \<longrightarrow> temperatures data ! i = 25" by auto
    from u f have u': "PIDController_update pid (temperatures data ! i) sim_dt
        = (pid1, out, P, I, D)" by simp
    from nxt have nxt': "Suc i < length (temperatures data)
        \<longrightarrow> temperatures data ! Suc i = temp system1" by simp
    from a f z' u' t b nxt' show ?thesis by blast
  qed
  with run show ?thesis by blast
qed

lemma first_plant_update_scenario:
  "TemperatureSystem_update (TemperatureSystem_init 25 25) (np_clip (10507 / 4) 0 100) sim_dt
     = Inr (TemperatureSystem_init 27 25, 27)"
  by (simp add: TemperatureSystem_update_def TemperatureSystem_init_def Let_def np_clip_def
      sim_dt_def)

theorem temperature_recorded_before_update_witness:
  "\<exists>data. run_simulation 5 (1 / 10) 1 200 300 = Inr data
     \<and> 0 < length (temperatures data) \<and> Suc 0 < length (temperatures data)
     \<and> temperatures data ! 0 = 25
     \<and> p_terms data ! 0 = 875 \<and> i_terms data ! 0 = 7 / 4 \<and> d_terms data ! 0 = 1750
     \<and> temperatures data ! Suc 0 = 27"
proof -
  from temperature_recorded_before_update [of 5 "1 / 10" 1 200 300]
  obtain data where run: "run_simulation 5 (1 / 10) 1 200 300 = Inr data"
    and rows: "\<forall>i < length (temperatures data).
          \<exists>pid system s pid1 out P I D system1 s1.
             state_before 5 (1 / 10) 1 200 i = Inr (pid, system, s)
           \<and> temperatures data ! i = temp system
           \<and> (i = 0 \<longrightarrow> temperatures data ! i = 25)
           \<and> PIDController_update pid (temperatures data ! i) sim_dt = (pid1, out, P, I, D)
           \<and> p_terms data ! i = P \<and> i_terms data ! i = I \<and> d_terms data ! i = D
           \<and> TemperatureSystem_update system (np_clip out 0 100) sim_dt
               = Inr (system1, temp system1)
           \<and> state_before 5 (1 / 10) 1 200 (Suc i) = Inr (pid1, system1, s1)
           \<and> (Suc i < length (temperatures data)
                 \<longrightarrow> temperatures data ! Suc i = temp system1)"
    by (elim exE conjE) (rule that)
  from run_simulation_lengths [OF run] have len: "length (temperatures data) = 3000"
    by (simp add: all_lengths_def scenario_steps)
  then have pos: "0 < length (temperatures data)" and one: "Suc 0 < length (temperatures data)"
    by simp_all
  from rows [rule_format, OF pos] obtain pid system s pid1 out P I D system1 s1 where
    a: "state_before 5 (1 / 10) 1 200 0 = Inr (pid, system, s)"
    and t0: "0 = (0::nat) \<longrightarrow> temperatures data ! 0 = 25"
    and u: "PIDController_update pid (temperatures data ! 0) sim_dt = (pid1, out, P, I, D)"
    and f: "p_terms data ! 0 = P" "i_terms data ! 0 = I" "d_terms data ! 0 = D"
    and t: "TemperatureSystem_update system (np_clip out 0 100) sim_dt
               = Inr (system1, temp system1)"
    and nxt: "Suc 0 < length (temperatures data) \<longrightarrow> temperatures data ! Suc 0 = temp system1"
    by (elim exE conjE) (rule that)
  from t0 have t0': "temperatures data ! 0 = 25" by simp
  from a have init: "pid = PIDController_init 5 (1 / 10) 1 200"
    "system = TemperatureSystem_init 25 25"
    by (simp_all add: state_before_0 initial_state_def)
  from u init t0' have v: "out = 10507 / 4" "P = 875" "I = 7 / 4" "D = 1750"
    by (simp_all add: first_update_scenario)
  from t have "TemperatureSystem_update (TemperatureSystem_init 25 25)
      (np_clip (10507 / 4) 0 100) sim_dt = Inr (system1, temp system1)"
    by (simp only: init v)
  with first_plant_update_scenario have "temp system1 = 27"
    by (simp add: TemperatureSystem_init_def)
  with nxt one have "temperatures data ! Suc 0 = 27" by simp
  with run pos one t0' f v show ?thesis by blast
qed

section \<open>Performance metrics\<close>

lemma find_steady_None:
  "find_steady errors tolerance xs = None \<longleftrightarrow> (\<forall>i\<in>set xs. \<not> qualifies errors tolerance i)"
  by (induction xs) (auto simp add: qualifies_def Let_def)

lemma find_steady_Some:
  "find_steady errors tolerance xs = Some i \<longleftrightarrow>
     (\<exists>ys zs. xs = ys @ i # zs \<and> (\<forall>j\<in>set ys. \<not> qualifies errors tolerance j)
        \<and> qualifies errors tolerance i)"
proof (induction xs)
  case Nil
  show ?case by simp
next
  case (Cons x xs)
  show ?case
  proof (cases "qualifies errors tolerance x")
    case True
    then have "find_steady errors tolerance (x # xs) = Some x"
      by (simp add: qualifies_def Let_def)
    moreover have "(\<exists>ys zs. x # xs = ys @ i # zs
        \<and> (\<forall>j\<in>set ys. \<not> qualifies errors tolerance j) \<and> qualifies errors tolerance i)
      \<longleftrightarrow> i = x"
    proof
      assume "\<exists>ys zs. x # xs = ys @ i # zs
        \<and> (\<forall>j\<in>set ys. \<not> qualifies errors tolerance j) \<and> qualifies errors tolerance i"
      then obtain ys zs where e: "x # xs = ys @ i # zs"
        and n: "\<forall>j\<in>set ys. \<not> qualifies errors tolerance j" by blast
      show "i = x"
      proof (cases ys)
        case Nil
        with e show ?thesis by simp
      next
        case (Cons y ys')
        with e have "y = x" by simp
        with Cons n True show ?thesis by simp
      qed
    next
      assume "i = x"
      with True have "x # xs = [] @ i # xs \<and> (\<forall>j\<in>set []. \<not> qualifies errors tolerance j)
          \<and> qualifies errors tolerance i" by simp
      then show "\<exists>ys zs. x # xs = ys @ i # zs
        \<and> (\<forall>j\<in>set ys. \<not> qualifies errors tolerance j) \<and> qualifies errors tolerance i"
        by blast
    qed
    ultimately show ?thesis by auto
  next
    case False
    then have f: "find_steady errors tolerance (x # xs) = find_steady errors tolerance xs"
      by (auto simp add: qualifies_def Let_def)
    have "(\<exists>ys zs. x # xs = ys @ i # zs
        \<and> (\<forall>j\<in>set ys. \<not> qualifies errors tolerance j) \<and> qualifies errors tolerance i)
      \<longleftrightarrow> (\<exists>ys zs. xs = ys @ i # zs
        \<and> (\<forall>j\<in>set ys. \<not> qualifies errors tolerance j) \<and> qualifies errors tolerance i)"
    proof
      assume "\<exists>ys zs. x # xs = ys @ i # zs
        \<and> (\<forall>j\<in>set ys. \<not> qualifies errors tolerance j) \<and> qualifies errors tolerance i"
      then obtain ys zs where e: "x # xs = ys @ i # zs"
        and n: "\<forall>j\<in>set ys. \<not> qualifies errors tolerance j"
        and q: "qualifies errors tolerance i" by blast
      show "\<exists>ys zs. xs = ys @ i # zs
        \<and> (\<forall>j\<in>set ys. \<not> qualifies errors tolerance j) \<and> qualifies errors tolerance i"
      proof (cases ys)
        case Nil
        with e q False show ?thesis by simp
      next
        case (Cons y ys')
        with e n q have "xs = ys' @ i # zs \<and> (\<forall>j\<in>set ys'. \<not> qualifies errors tolerance j)
          \<and> qualifies errors tolerance i" by simp
        then show ?thesis by blast
      qed
    next
      assume "\<exists>ys zs. xs = ys @ i # zs
        \<and> (\<forall>j\<in>set ys. \<not> qualifies errors tolerance j) \<and> qualifies errors tolerance i"
      then obtain ys zs where "xs = ys @ i # zs"
        "\<forall>j\<in>set ys. \<not> qualifies errors tolerance j" "qualifies errors tolerance i" by blast
      with False have "x # xs = (x # ys) @ i # zs
        \<and> (\<forall>j\<in>set (x # ys). \<not> qualifies errors tolerance j)
        \<and> qualifies errors tolerance i" by simp
      then show "\<exists>ys zs. x # xs = ys @ i # zs
        \<and> (\<forall>j\<in>set ys. \<not> qualifies errors tolerance j) \<and> qualifies errors tolerance i"
        by blast
    qed
    with f Cons.IH show ?thesis by simp
  qed
qed

lemma upt_split:
  "[0..<n] = ys @ i # zs \<longleftrightarrow> i < n \<and> ys = [0..<i] \<and> zs = [Suc i..<n]"
proof
  assume e: "[0..<n] = ys @ i # zs"
  then have "length [0..<n] = length (ys @ i # zs)" by (rule arg_cong)
  then have l: "length ys < n" by simp
  from e have "[0..<n] ! length ys = (ys @ i # zs) ! length ys" by (rule arg_cong)
  with l have i: "i = length ys" by simp
  from e have "take (length ys) [0..<n] = take (length ys) (ys @ i # zs)" by (rule arg_cong)
  with l have ys: "ys = [0..<length ys]" by (simp add: take_upt)
  from e have "drop (Suc (length ys)) [0..<n] = drop (Suc (length ys)) (ys @ i # zs)"
    by (rule arg_cong)
  then have zs: "zs = [Suc (length ys)..<n]" by (simp add: drop_upt)
  from l i ys zs show "i < n \<and> ys = [0..<i] \<and> zs = [Suc i..<n]" by simp
next
  assume a: "i < n \<and> ys = [0..<i] \<and> zs = [Suc i..<n]"
  then have n: "i + (n - i) = n" by simp
  have "[0..<i + (n - i)] = [0..<i] @ [i..<i + (n - i)]"
    by (rule upt_add_eq_append) simp
  then have "[0..<n] = [0..<i] @ [i..<n]"
    by (simp only: n)
  also from a have "[i..<n] = i # [Suc i..<n]" by (simp add: upt_conv_Cons)
  finally show "[0..<n] = ys @ i # zs" using a by simp
qed

text \<open>The search returns the first qualifying index, and nothing when there is none.\<close>

lemma steady_state_idx_Some:
  "steady_state_idx errors tolerance = Some i \<longleftrightarrow>
     (i < length errors \<and> qualifies errors tolerance i
      \<and> (\<forall>j<i. \<not> qualifies errors tolerance j))"
proof -
  have "steady_state_idx errors tolerance = Some i \<longleftrightarrow>
      (\<exists>ys zs. (i < length errors \<and> ys = [0..<i] \<and> zs = [Suc i..<length errors])
         \<and> (\<forall>j\<in>set ys. \<not> qualifies errors tolerance j) \<and> qualifies errors tolerance i)"
    by (simp only: steady_state_idx_def find_steady_Some upt_split)
  also have "\<dots> \<longleftrightarrow> (i < length errors \<and> qualifies errors tolerance i
      \<and> (\<forall>j\<in>set [0..<i]. \<not> qualifies errors tolerance j))"
    by blast
  also have "\<dots> \<longleftrightarrow> (i < length errors \<and> qualifies errors tolerance i
      \<and> (\<forall>j<i. \<not> qualifies errors tolerance j))"
    by auto
  finally show ?thesis .
qed

lemma steady_state_idx_None:
  "steady_state_idx errors tolerance = None \<longleftrightarrow>
     (\<forall>i<length errors. \<not> qualifies errors tolerance i)"
  by (auto simp add: steady_state_idx_def find_steady_None)

text \<open>
  What the report says about settling, for a record whose series have one length and at
  least one sample: the time at the first qualifying index when that index is not \<open>0\<close>, and
  the "cannot be measured" line both when there is no qualifying index and when it is \<open>0\<close>.
\<close>

lemma print_performance_settling:
  assumes "length (temperatures data) = length (setpoints data)"
    and "length (times data) = length (setpoints data)"
    and "setpoints data \<noteq> []"
  shows "\<exists>perf. print_performance data = Inr perf
     \<and> settling_time perf =
         (case steady_state_idx (map (\<lambda>(x, y). x - y) (zip (setpoints data) (temperatures data)))
                 (hd (setpoints data) * (2 / 100)) of
            None \<Rightarrow> NotReached
          | Some i \<Rightarrow> if i = 0 then NotReached else Reached (times data ! i))"
proof -
  define errors where
    "errors = map (\<lambda>(x, y). x - y) (zip (setpoints data) (temperatures data))"
  define tolerance where "tolerance = hd (setpoints data) * (2 / 100)"
  from assms have sub: "np_sub (setpoints data) (temperatures data) = Inr errors"
    by (simp add: np_sub_def errors_def)
  from assms have idx0: "py_index (setpoints data) 0 = Inr (hd (setpoints data))"
    by (simp add: py_index_def hd_conv_nth)
  from assms obtain m where mx: "np_max (temperatures data) = Inr m"
    by (cases "temperatures data") (auto simp add: np_max_def)
  from assms have len: "length errors = length (times data)"
    by (simp add: errors_def)
  have pp: "print_performance data =
      (case (if py_truthy (steady_state_idx errors tolerance)
             then map_sum id Reached
                    (py_index (times data) (the (steady_state_idx errors tolerance)))
             else Inr NotReached) of
         Inl e \<Rightarrow> Inl e
       | Inr st \<Rightarrow>
           Inr \<lparr>settling_time = st, overshoot = m - hd (setpoints data),
                overshoot_percent =
                  (if hd (setpoints data) = 0 then None
                   else Some ((m - hd (setpoints data)) / hd (setpoints data) * 100)),
                mse = np_mean (map (\<lambda>e. e ^ 2) errors)\<rparr>)"
    by (simp only: print_performance_def Let_def sub idx0 mx sum.case tolerance_def)
  show ?thesis
  proof (cases "steady_state_idx errors tolerance")
    case None
    then show ?thesis
      unfolding errors_def [symmetric] tolerance_def [symmetric]
      by (simp add: pp)
  next
    case (Some i)
    then have "i < length (times data)"
      using len by (simp add: steady_state_idx_Some)
    then have "py_index (times data) i = Inr (times data ! i)"
      by (simp add: py_index_def)
    with Some show ?thesis
      unfolding errors_def [symmetric] tolerance_def [symmetric]
      by (simp add: pp)
  qed
qed

lemma one_step_run:
  "run_simulation 5 (1 / 10) 1 25 (1 / 10) =
     Inr \<lparr>times = [0], temperatures = [25], setpoints = [25], heater_powers = [0],
          p_terms = [0], i_terms = [0], d_terms = [0],
          data_Kp = 5, data_Ki = 1 / 10, data_Kd = 1\<rparr>"
  by (simp add: run_simulation_steps step_count_tenth py_range_def sim_dt_def
      initial_state_def empty_series_def loop_body_def PIDController_update_def
      PIDController_init_def TemperatureSystem_init_def TemperatureSystem_update_def
      np_clip_def)

text \<open>
  C1: the search finds the first qualifying index, but the report tests it with
  \<^verbatim>\<open>if steady_state_idx:\<close>, which is false for the index \<open>0\<close>. The one-step run with target
  \<open>25\<close> returns a record whose only sample is within tolerance, so index \<open>0\<close> qualifies,
  and the report is nevertheless "cannot be measured".
\<close>

theorem settling_at_index_zero_not_reported:
  "run_simulation 5 (1 / 10) 1 25 (1 / 10) =
     Inr \<lparr>times = [0], temperatures = [25], setpoints = [25], heater_powers = [0],
          p_terms = [0], i_terms = [0], d_terms = [0],
          data_Kp = 5, data_Ki = 1 / 10, data_Kd = 1\<rparr>
   \<and> steady_state_idx [0] (25 * (2 / 100)) = Some 0
   \<and> print_performance
        \<lparr>times = [0], temperatures = [25], setpoints = [25], heater_powers = [0],
          p_terms = [0], i_terms = [0], d_terms = [0],
          data_Kp = 5 :: real, data_Ki = 1 / 10 :: real, data_Kd = 1 :: real\<rparr>
       = Inr \<lparr>settling_time = NotReached, overshoot = 0, overshoot_percent = Some 0,
              mse = Some 0\<rparr>"
  by (simp add: one_step_run steady_state_idx_def in_band_def print_performance_def Let_def
      np_sub_def py_index_def np_max_def np_mean_def)

text \<open>
  C2: the run with \<open>sim_time = 0\<close> returns a record with no samples, and the metrics on that
  record raise \<^verbatim>\<open>IndexError\<close> at \<^verbatim>\<open>setpoints[0]\<close> instead of reporting.
\<close>

theorem metrics_crash_on_empty_record:
  "run_simulation 5 (1 / 10) 1 200 0 =
     Inr \<lparr>times = [], temperatures = [], setpoints = [], heater_powers = [], p_terms = [],
          i_terms = [], d_terms = [], data_Kp = 5, data_Ki = 1 / 10, data_Kd = 1\<rparr>
   \<and> print_performance
        \<lparr>times = [], temperatures = [], setpoints = [], heater_powers = [], p_terms = [],
          i_terms = [], d_terms = [],
          data_Kp = 5 :: real, data_Ki = 1 / 10 :: real, data_Kd = 1 :: real\<rparr>
       = Inl IndexError"
  by (simp add: run_simulation_steps step_count_0 py_range_def sim_dt_def
      initial_state_def empty_series_def print_performance_def np_sub_def py_index_def)

end
